theory Spec2Isabelle
  imports Main "HOL-Library.Char_ord" "HOL-Library.List_Lexorder" "HOL-Library.Multiset"
    "HOL-Library.Word"
begin

unbundle bit_operations_syntax

section \<open>Python values, strings and exceptions\<close>

text \<open>
  The module \<open>mindsdb/interfaces/skills/sql_agent.py\<close> is modelled function by function.
  A Python \<open>str\<close> is a \<open>string\<close>; the characters of the model are the code points below 256.
  An exception is a value of \<open>error\<close>; every function that can raise returns
  \<open>error + 'a\<close>, with \<open>Inl\<close> for the exception. Each constructor carries the text
  that \<open>str(e)\<close> yields.
\<close>

datatype error =
    TypeError string
  | IndexError string
  | AttributeError string
  | KeyError string
  | ValueError string
  | ExternalError string

fun exc_str :: "error \<Rightarrow> string" where
  "exc_str (TypeError m) = m"
| "exc_str (IndexError m) = m"
| "exc_str (AttributeError m) = m"
| "exc_str (KeyError m) = m"
| "exc_str (ValueError m) = m"
| "exc_str (ExternalError m) = m"

text \<open>The values that occur as cells of a result row (floats are outside the model).\<close>

datatype pyval = PNone | PBool bool | PInt int | PStr string | PList "pyval list"

definition nl :: char where "nl = CHR 0x0A"
definition tab :: char where "tab = CHR 0x09"
definition cr :: char where "cr = CHR 0x0D"
definition bq :: char where "bq = CHR 0x60"
definition dq :: char where "dq = CHR 0x22"
definition sq :: char where "sq = CHR 0x27"
definition bsl :: char where "bsl = CHR 0x5C"

text \<open>\<open>sep.join(xs)\<close>\<close>

fun join :: "string \<Rightarrow> string list \<Rightarrow> string" where
  "join sep [] = []"
| "join sep [x] = x"
| "join sep (x # y # ys) = x @ sep @ join sep (y # ys)"

text \<open>\<open>s.strip(chars)\<close>: characters of \<open>chars\<close> are removed from both ends.\<close>

definition strip :: "string \<Rightarrow> string \<Rightarrow> string" where
  "strip chars s =
     rev (dropWhile (\<lambda>c. c \<in> set chars) (rev (dropWhile (\<lambda>c. c \<in> set chars) s)))"

text \<open>\<open>str(n)\<close> for an integer: decimal digits, with a minus sign when negative.\<close>

fun nat_digits :: "nat \<Rightarrow> string" where
  "nat_digits n =
     (if n < 10 then [''0123456789'' ! n]
      else nat_digits (n div 10) @ [''0123456789'' ! (n mod 10)])"

declare nat_digits.simps [simp del]

definition str_int :: "int \<Rightarrow> string" where
  "str_int i = (if i < 0 then CHR ''-'' # nat_digits (nat (- i)) else nat_digits (nat i))"

text \<open>
  \<open>repr(s)\<close> for a string: single quotes unless the string has a single quote and no
  double quote; backslash and the chosen quote are escaped, tab, newline and carriage
  return are written \<open>\t\<close>, \<open>\n\<close>, \<open>\r\<close>, and every other non-printable code point
  as \<open>\xNN\<close>.
\<close>

definition hex2 :: "nat \<Rightarrow> string" where
  "hex2 n = [''0123456789abcdef'' ! (n div 16 mod 16), ''0123456789abcdef'' ! (n mod 16)]"

definition printable :: "char \<Rightarrow> bool" where
  "printable c = (let n = (of_char c :: nat) in 32 \<le> n \<and> n < 127 \<or> 160 < n \<and> n \<noteq> 173)"

definition repr_char :: "char \<Rightarrow> char \<Rightarrow> string" where
  "repr_char quote c =
     (if c = quote \<or> c = bsl then [bsl, c]
      else if c = tab then [bsl, CHR ''t'']
      else if c = nl then [bsl, CHR ''n'']
      else if c = cr then [bsl, CHR ''r'']
      else if printable c then [c]
      else [bsl, CHR ''x''] @ hex2 (of_char c))"

definition repr_str :: "string \<Rightarrow> string" where
  "repr_str s =
     (let quote = (if sq \<in> set s \<and> dq \<notin> set s then dq else sq)
      in [quote] @ concat (map (repr_char quote) s) @ [quote])"

fun py_repr :: "pyval \<Rightarrow> string" where
  "py_repr PNone = ''None''"
| "py_repr (PBool b) = (if b then ''True'' else ''False'')"
| "py_repr (PInt i) = str_int i"
| "py_repr (PStr s) = repr_str s"
| "py_repr (PList xs) = ''['' @ join '', '' (map py_repr xs) @ '']''"

text \<open>\<open>str(v)\<close>: a string is itself, every other value prints as its \<open>repr\<close>.\<close>

definition py_str :: "pyval \<Rightarrow> string" where
  "py_str v = (case v of PStr s \<Rightarrow> s | _ \<Rightarrow> py_repr v)"

text \<open>
  \<open>for x in v\<close>: a list yields its elements and a string its characters; \<open>None\<close>,
  booleans and integers are not iterable.
\<close>

definition type_name :: "pyval \<Rightarrow> string" where
  "type_name v =
     (case v of PNone \<Rightarrow> ''NoneType'' | PBool _ \<Rightarrow> ''bool'' | PInt _ \<Rightarrow> ''int''
      | PStr _ \<Rightarrow> ''str'' | PList _ \<Rightarrow> ''list'')"

definition quoted :: "string \<Rightarrow> string" where
  "quoted s = [sq] @ s @ [sq]"

definition py_iter :: "pyval \<Rightarrow> error + pyval list" where
  "py_iter v =
     (case v of
        PList xs \<Rightarrow> Inr xs
      | PStr s \<Rightarrow> Inr (map (\<lambda>c. PStr [c]) s)
      | _ \<Rightarrow> Inl (TypeError (quoted (type_name v) @ '' object is not iterable'')))"

section \<open>The agent, its collaborators and the mutable world\<close>

text \<open>
  A parsed statement is seen by the code only through \<open>query_traversal\<close>, which calls the
  callback once for every node, with \<open>is_table\<close> set on table references. So a statement
  is modelled by that sequence of calls. An \<open>Identifier\<close> node carries its \<open>parts\<close>.
\<close>

datatype node = Identifier "string list" | OtherNode

type_synonym ast = "(node \<times> bool) list"

text \<open>\<open>ret.data\<close> of an executor answer: the column names and \<open>to_lists()\<close>.\<close>

record result_set =
  columns :: "string list"
  to_lists :: "pyval list list"

record answer =
  data :: "result_set option"

text \<open>
  The external collaborators: the ambient \<open>ctx.company_id\<close>, \<open>parse_sql\<close>,
  \<open>command_executor.execute_command\<close>, the schema introspector
  \<open>datahub.get(integration).get_table_columns(table)\<close> (a column is its \<open>name\<close> and its
  optional \<open>type\<close>), the parser library's \<open>Identifier(path_str).parts\<close> and
  \<open>str(Identifier)\<close>, and pandas' \<open>str(DataFrame(data, columns).describe(include='all'))\<close>.
\<close>

record env =
  company_id :: pyval
  parse_sql :: "string \<Rightarrow> error + ast"
  execute_command :: "ast \<Rightarrow> string \<Rightarrow> error + answer"
  get_table_columns :: "string \<Rightarrow> string \<Rightarrow> error + (string \<times> string option) list"
  ident_parts :: "string \<Rightarrow> error + string list"
  ident_str :: "string list \<Rightarrow> string"
  describe :: "string list \<Rightarrow> pyval list list \<Rightarrow> error + string"

text \<open>
  What the cache holds under a key: the set of usable tables (\<open>set(usable_tables)\<close>, kept
  as a duplicate-free list), a table-info dictionary (in insertion order), or a list.
\<close>

datatype cache_value =
    PyList "string list"
  | PySet "string list"
  | PyDict "(string \<times> string) list"

fun truthy :: "cache_value \<Rightarrow> bool" where
  "truthy (PyList xs) = (xs \<noteq> [])"
| "truthy (PySet xs) = (xs \<noteq> [])"
| "truthy (PyDict kvs) = (kvs \<noteq> [])"

text \<open>
  The world the agent acts on: the contents of the cache object (\<open>None\<close> when the agent
  was built without a cache; a cache object, which offers \<open>get\<close> and \<open>set\<close>, is truthy)
  and the log of the statements handed to the executor.
\<close>

record world =
  cache :: "(string \<rightharpoonup> cache_value) option"
  executed :: "(ast \<times> string) list"

record sql_agent =
  database :: string
  sample_rows_in_table_info :: int
  tables_to_include :: "string list option"
  tables_to_ignore :: "string list"

text \<open>\<open>SQLAgent.__init__\<close>: the ignore-list is kept only when no include-list is set.\<close>

definition init :: "string \<Rightarrow> string list option \<Rightarrow> string list option \<Rightarrow> int \<Rightarrow> sql_agent" where
  "init db include_tables ignore_tables n =
     \<lparr> database = db,
       sample_rows_in_table_info = n,
       tables_to_include = include_tables,
       tables_to_ignore =
         (if include_tables = None \<or> include_tables = Some []
          then (case ignore_tables of None \<Rightarrow> [] | Some l \<Rightarrow> l) else []) \<rparr>"

section \<open>The guarded gateway: \<open>_check_tables\<close> and \<open>_call_engine\<close>\<close>

text \<open>
  \<open>_check_f\<close>: on a table reference, \<open>node.parts[-1]\<close> (IndexError on no parts), then the
  membership test against \<open>self._tables_to_include\<close> (TypeError when that is \<open>None\<close>).
  On a table outside the list the source evaluates the expression
  \<open>ValueError(f"Table ... not found. Available tables: ...")\<close> and drops its value: there is
  no \<open>raise\<close>, so both branches return normally.
\<close>

definition none_not_iterable :: error where
  "none_not_iterable =
     TypeError (''argument of type '' @ quoted ''NoneType'' @ '' is not iterable'')"

definition check_f :: "sql_agent \<Rightarrow> node \<Rightarrow> bool \<Rightarrow> error + unit" where
  "check_f self nd is_table =
     (case nd of
        OtherNode \<Rightarrow> Inr ()
      | Identifier parts \<Rightarrow>
          if \<not> is_table then Inr ()
          else if parts = [] then Inl (IndexError ''list index out of range'')
          else (let table = last parts in
            case tables_to_include self of
              None \<Rightarrow> Inl none_not_iterable
            | Some inc \<Rightarrow>
                if table \<notin> set inc
                then (let dropped = ValueError (''Table '' @ table @
                          '' not found. Available tables: '' @ join '', '' inc)
                      in Inr ())
                else Inr ()))"

fun query_traversal :: "ast \<Rightarrow> (node \<Rightarrow> bool \<Rightarrow> error + unit) \<Rightarrow> error + unit" where
  "query_traversal [] f = Inr ()"
| "query_traversal ((nd, is_table) # rest) f =
     (case f nd is_table of Inl e \<Rightarrow> Inl e | Inr u \<Rightarrow> query_traversal rest f)"

definition check_tables :: "sql_agent \<Rightarrow> ast \<Rightarrow> error + unit" where
  "check_tables self ast_query = query_traversal ast_query (check_f self)"

text \<open>
  \<open>_call_engine\<close>: parse the query stripped of backticks, check it, then hand it to the
  executor with the given database or the agent's own. Only the last step extends the log.
\<close>

definition call_engine ::
  "env \<Rightarrow> sql_agent \<Rightarrow> world \<Rightarrow> string \<Rightarrow> string option \<Rightarrow> (error + answer) \<times> world" where
  "call_engine E self w query db =
     (case parse_sql E (strip [bq] query) of
        Inl e \<Rightarrow> (Inl e, w)
      | Inr ast_query \<Rightarrow>
          (case check_tables self ast_query of
             Inl e \<Rightarrow> (Inl e, w)
           | Inr u \<Rightarrow>
               (let d = (case db of None \<Rightarrow> database self | Some d' \<Rightarrow> d')
                in (execute_command E ast_query d,
                    w\<lparr>executed := executed w @ [(ast_query, d)]\<rparr>))))"

section \<open>The table list: \<open>get_usable_table_names\<close>\<close>

definition tables_cache_key :: "env \<Rightarrow> sql_agent \<Rightarrow> string" where
  "tables_cache_key E self = py_str (company_id E) @ ''_'' @ database self @ ''_tables''"

text \<open>\<open>self._cache.get(key) if self._cache else None\<close>\<close>

definition cache_get :: "world \<Rightarrow> string \<Rightarrow> cache_value option" where
  "cache_get w k = (case cache w of None \<Rightarrow> None | Some c \<Rightarrow> c k)"

text \<open>\<open>if self._cache: self._cache.set(key, value)\<close>\<close>

definition cache_set :: "world \<Rightarrow> string \<Rightarrow> cache_value \<Rightarrow> world" where
  "cache_set w k v = (case cache w of None \<Rightarrow> w | Some c \<Rightarrow> w\<lparr>cache := Some (c(k \<mapsto> v))\<rparr>)"

definition no_attribute :: "string \<Rightarrow> string \<Rightarrow> error" where
  "no_attribute ty attr =
     AttributeError (quoted ty @ '' object has no attribute '' @ quoted attr)"

text \<open>\<open>ret.data.to_lists()\<close>: an answer without data has \<open>data = None\<close>.\<close>

definition answer_lists :: "answer \<Rightarrow> error + pyval list list" where
  "answer_lists ret =
     (case data ret of
        None \<Rightarrow> Inl (no_attribute ''NoneType'' ''to_lists'')
      | Some d \<Rightarrow> Inr (to_lists d))"

text \<open>\<open>[lst[0] for lst in rows if lst[0] != 'information_schema']\<close>\<close>

fun first_cells :: "pyval list list \<Rightarrow> error + pyval list" where
  "first_cells [] = Inr []"
| "first_cells (lst # rest) =
     (case lst of
        [] \<Rightarrow> Inl (IndexError ''list index out of range'')
      | x # xs \<Rightarrow>
          (case first_cells rest of
             Inl e \<Rightarrow> Inl e
           | Inr ys \<Rightarrow> Inr (if x \<noteq> PStr ''information_schema'' then x # ys else ys)))"

text \<open>
  The body of the \<open>try\<close> in the discovery loop: list the tables of \<open>db\<close> and keep the
  qualified names that are not in the ignore-list.
\<close>

definition show_tables ::
  "env \<Rightarrow> sql_agent \<Rightarrow> world \<Rightarrow> string \<Rightarrow> (error + string list) \<times> world" where
  "show_tables E self w db =
     (case call_engine E self w ''show tables'' (Some db) of
        (Inl e, w') \<Rightarrow> (Inl e, w')
      | (Inr ret, w') \<Rightarrow>
          (case answer_lists ret of
             Inl e \<Rightarrow> (Inl e, w')
           | Inr rows \<Rightarrow>
               (case first_cells rows of
                  Inl e \<Rightarrow> (Inl e, w')
                | Inr tables \<Rightarrow>
                    (Inr (filter (\<lambda>table_name. table_name \<notin> set (tables_to_ignore self))
                            (map (\<lambda>table. db @ ''.'' @ py_str table) tables)), w'))))"

text \<open>
  \<open>for db in dbs\<close>: only a database equal to the agent's own and different from
  \<open>mindsdb\<close> is listed; an exception of the listing is logged and the loop goes on.
\<close>

fun discover ::
  "env \<Rightarrow> sql_agent \<Rightarrow> pyval list \<Rightarrow> world \<Rightarrow> string list \<Rightarrow> string list \<times> world" where
  "discover E self [] w usable_tables = (usable_tables, w)"
| "discover E self (db # dbs) w usable_tables =
     (if db \<noteq> PStr ''mindsdb'' \<and> db = PStr (database self)
      then (case show_tables E self w (database self) of
              (Inl e, w') \<Rightarrow> discover E self dbs w' usable_tables
            | (Inr names, w') \<Rightarrow> discover E self dbs w' (usable_tables @ names))
      else discover E self dbs w usable_tables)"

text \<open>
  \<open>get_usable_table_names\<close>: first the cache, then the include-list, then discovery,
  whose result is stored in the cache as a set.
\<close>

definition get_usable_table_names ::
  "env \<Rightarrow> sql_agent \<Rightarrow> world \<Rightarrow> (error + cache_value) \<times> world" where
  "get_usable_table_names E self w =
     (let cache_key = tables_cache_key E self;
          cached_tables = cache_get w cache_key
      in if (case cached_tables of None \<Rightarrow> False | Some v \<Rightarrow> truthy v)
         then (case cached_tables of None \<Rightarrow> (Inr (PyList []), w) | Some v \<Rightarrow> (Inr v, w))
         else if (case tables_to_include self of None \<Rightarrow> False | Some inc \<Rightarrow> inc \<noteq> [])
         then (case tables_to_include self of
                 None \<Rightarrow> (Inr (PyList []), w) | Some inc \<Rightarrow> (Inr (PyList inc), w))
         else (case call_engine E self w ''show databases;'' None of
                 (Inl e, w') \<Rightarrow> (Inl e, w')
               | (Inr ret, w') \<Rightarrow>
                   (case answer_lists ret of
                      Inl e \<Rightarrow> (Inl e, w')
                    | Inr rows \<Rightarrow>
                        (case first_cells rows of
                           Inl e \<Rightarrow> (Inl e, w')
                         | Inr dbs \<Rightarrow>
                             (case discover E self dbs w' [] of
                                (usable_tables, w'') \<Rightarrow>
                                  (Inr (PyList usable_tables),
                                   cache_set w'' cache_key (PySet (remdups usable_tables))))))))"

section \<open>The identifier resolver: \<open>_resolve_table_names\<close>\<close>

text \<open>
  The lookup index: every catalog table is stored under its last part alone and under
  its full path, a later table replacing an earlier one under the same key.
\<close>

fun build_idx ::
  "string list list \<Rightarrow> (string list \<rightharpoonup> string list) \<Rightarrow> error + (string list \<rightharpoonup> string list)" where
  "build_idx [] tables_idx = Inr tables_idx"
| "build_idx (table # rest) tables_idx =
     (if table = [] then Inl (IndexError ''list index out of range'')
      else build_idx rest (tables_idx([last table] \<mapsto> table, table \<mapsto> table)))"

definition strip_chars :: string where
  "strip_chars = [CHR '' '', bq, dq, sq, nl, cr]"

fun resolve_loop ::
  "env \<Rightarrow> (string list \<rightharpoonup> string list) \<Rightarrow> string list \<Rightarrow> error + string list list" where
  "resolve_loop E tables_idx [] = Inr []"
| "resolve_loop E tables_idx (raw # rest) =
     (let table_name = strip strip_chars raw in
      case ident_parts E table_name of
        Inl e \<Rightarrow> Inl e
      | Inr table \<Rightarrow>
          (case tables_idx table of
             None \<Rightarrow> Inl (ValueError (''Table '' @ ident_str E table @ '' not found in database''))
           | Some table2 \<Rightarrow>
               (case resolve_loop E tables_idx rest of
                  Inl e \<Rightarrow> Inl e
                | Inr tables \<Rightarrow> Inr (table2 # tables))))"

definition resolve_table_names ::
  "env \<Rightarrow> string list \<Rightarrow> string list list \<Rightarrow> error + string list list" where
  "resolve_table_names E table_names all_tables =
     (case build_idx all_tables Map.empty of
        Inl e \<Rightarrow> Inl e
      | Inr tables_idx \<Rightarrow> resolve_loop E tables_idx table_names)"

section \<open>The cache key: \<open>_generate_cache_key\<close>\<close>

text \<open>
  \<open>hashlib.sha256(full_key.encode()).hexdigest()\<close>: the UTF-8 bytes of the key, hashed
  with SHA-256 (FIPS 180-4) and printed as lower-case hexadecimal digits.
\<close>

type_synonym u32 = "32 word"

definition utf8 :: "char \<Rightarrow> 8 word list" where
  "utf8 c = (let n = (of_char c :: nat) in
      if n < 128 then [of_nat n] else [of_nat (192 + n div 64), of_nat (128 + n mod 64)])"

definition encode :: "string \<Rightarrow> 8 word list" where
  "encode s = concat (map utf8 s)"

definition sha_k :: "u32 list" where
  "sha_k = [
    0x428A2F98, 0x71374491, 0xB5C0FBCF, 0xE9B5DBA5, 0x3956C25B, 0x59F111F1, 0x923F82A4, 0xAB1C5ED5,
    0xD807AA98, 0x12835B01, 0x243185BE, 0x550C7DC3, 0x72BE5D74, 0x80DEB1FE, 0x9BDC06A7, 0xC19BF174,
    0xE49B69C1, 0xEFBE4786, 0x0FC19DC6, 0x240CA1CC, 0x2DE92C6F, 0x4A7484AA, 0x5CB0A9DC, 0x76F988DA,
    0x983E5152, 0xA831C66D, 0xB00327C8, 0xBF597FC7, 0xC6E00BF3, 0xD5A79147, 0x06CA6351, 0x14292967,
    0x27B70A85, 0x2E1B2138, 0x4D2C6DFC, 0x53380D13, 0x650A7354, 0x766A0ABB, 0x81C2C92E, 0x92722C85,
    0xA2BFE8A1, 0xA81A664B, 0xC24B8B70, 0xC76C51A3, 0xD192E819, 0xD6990624, 0xF40E3585, 0x106AA070,
    0x19A4C116, 0x1E376C08, 0x2748774C, 0x34B0BCB5, 0x391C0CB3, 0x4ED8AA4A, 0x5B9CCA4F, 0x682E6FF3,
    0x748F82EE, 0x78A5636F, 0x84C87814, 0x8CC70208, 0x90BEFFFA, 0xA4506CEB, 0xBEF9A3F7, 0xC67178F2]"

type_synonym sha_state = "u32 \<times> u32 \<times> u32 \<times> u32 \<times> u32 \<times> u32 \<times> u32 \<times> u32"

definition sha_init :: sha_state where
  "sha_init = (0x6A09E667, 0xBB67AE85, 0x3C6EF372, 0xA54FF53A,
               0x510E527F, 0x9B05688C, 0x1F83D9AB, 0x5BE0CD19)"

text \<open>Padding: the byte 0x80, zeros up to 56 modulo 64, the bit length on 8 bytes.\<close>

definition pad :: "8 word list \<Rightarrow> 8 word list" where
  "pad m = (let l = length m; z = (55 + 64 - l mod 64) mod 64 in
     m @ [0x80] @ replicate z 0 @
     map (\<lambda>i. ucast (drop_bit (8 * i) (of_nat (8 * l) :: 64 word))) [7, 6, 5, 4, 3, 2, 1, 0])"

fun chunks :: "nat \<Rightarrow> 'a list \<Rightarrow> 'a list list" where
  "chunks n xs = (if n = 0 \<or> xs = [] then [] else take n xs # chunks n (drop n xs))"

declare chunks.simps [simp del]

definition be32 :: "8 word list \<Rightarrow> u32" where
  "be32 bs = foldl (\<lambda>acc b. push_bit 8 acc + ucast b) 0 bs"

definition rotr :: "nat \<Rightarrow> u32 \<Rightarrow> u32" where
  "rotr n x = drop_bit n x OR push_bit (32 - n) x"

definition ssig0 :: "u32 \<Rightarrow> u32" where
  "ssig0 x = rotr 7 x XOR rotr 18 x XOR drop_bit 3 x"

definition ssig1 :: "u32 \<Rightarrow> u32" where
  "ssig1 x = rotr 17 x XOR rotr 19 x XOR drop_bit 10 x"

definition bsig0 :: "u32 \<Rightarrow> u32" where
  "bsig0 x = rotr 2 x XOR rotr 13 x XOR rotr 22 x"

definition bsig1 :: "u32 \<Rightarrow> u32" where
  "bsig1 x = rotr 6 x XOR rotr 11 x XOR rotr 25 x"

fun schedule :: "u32 list \<Rightarrow> nat \<Rightarrow> u32 list" where
  "schedule w 0 = w"
| "schedule w (Suc n) = (let t = length w in
     schedule (w @ [ssig1 (w ! (t - 2)) + w ! (t - 7) + ssig0 (w ! (t - 15)) + w ! (t - 16)]) n)"

definition sha_round :: "sha_state \<Rightarrow> u32 \<times> u32 \<Rightarrow> sha_state" where
  "sha_round st kw = (case st of (a, b, c, d, e, f, g, h) \<Rightarrow>
     (let t1 = h + bsig1 e + ((e AND f) XOR (NOT e AND g)) + fst kw + snd kw;
          t2 = bsig0 a + ((a AND b) XOR (a AND c) XOR (b AND c))
      in (t1 + t2, a, b, c, d + t1, e, f, g)))"

definition compress :: "sha_state \<Rightarrow> 8 word list \<Rightarrow> sha_state" where
  "compress st block = (let w = schedule (map be32 (chunks 4 block)) 48 in
     case (st, foldl sha_round st (zip sha_k w)) of
       ((a, b, c, d, e, f, g, h), (a', b', c', d', e', f', g', h')) \<Rightarrow>
         (a + a', b + b', c + c', d + d', e + e', f + f', g + g', h + h'))"

definition hex8 :: "u32 \<Rightarrow> string" where
  "hex8 x = map (\<lambda>i. ''0123456789abcdef'' ! unat (drop_bit (4 * i) x AND 15))
              [7, 6, 5, 4, 3, 2, 1, 0]"

definition sha256_hexdigest :: "8 word list \<Rightarrow> string" where
  "sha256_hexdigest m = (case foldl compress sha_init (chunks 64 (pad m)) of
     (a, b, c, d, e, f, g, h) \<Rightarrow> concat (map hex8 [a, b, c, d, e, f, g, h]))"

text \<open>
  \<open>_generate_cache_key\<close>: \<open>table_names\<close> is \<open>None\<close> or a list; an empty list is falsy
  and gives the base key, like \<open>None\<close>. \<open>sorted\<close> orders strings by code points.
\<close>

definition generate_cache_key :: "env \<Rightarrow> sql_agent \<Rightarrow> string list option \<Rightarrow> string" where
  "generate_cache_key E self table_names =
     (let base_key = py_str (company_id E) @ ''_'' @ database self @ ''_table_info'';
          full_key =
            (case table_names of
               None \<Rightarrow> base_key
             | Some names \<Rightarrow>
                 if names \<noteq> [] then base_key @ ''_'' @ join ''_'' (sort names) else base_key)
      in sha256_hexdigest (encode full_key))"

section \<open>Table information: cache lookup, fetch and sampling\<close>

text \<open>\<open>name in v\<close> and \<open>v[name]\<close> on a cached value; a dictionary is searched by key.\<close>

fun contains :: "cache_value \<Rightarrow> string \<Rightarrow> bool" where
  "contains (PyList xs) name = (name \<in> set xs)"
| "contains (PySet xs) name = (name \<in> set xs)"
| "contains (PyDict kvs) name = (name \<in> set (map fst kvs))"

fun subscript :: "cache_value \<Rightarrow> string \<Rightarrow> error + string" where
  "subscript (PyList xs) name =
     Inl (TypeError ''list indices must be integers or slices, not str'')"
| "subscript (PySet xs) name = Inl (TypeError (quoted ''set'' @ '' object is not subscriptable''))"
| "subscript (PyDict kvs) name =
     (case map_of kvs name of None \<Rightarrow> Inl (KeyError (repr_str name)) | Some v \<Rightarrow> Inr v)"

text \<open>\<open>d[k] = v\<close> on a dictionary in insertion order: a known key keeps its place.\<close>

fun dict_set :: "string \<Rightarrow> string \<Rightarrow> (string \<times> string) list \<Rightarrow> (string \<times> string) list" where
  "dict_set k v [] = [(k, v)]"
| "dict_set k v (p # ps) = (if fst p = k then (k, v) # ps else p # dict_set k v ps)"

text \<open>\<open>{name: cached_info[name] for name in table_names}\<close>\<close>

fun cached_subset ::
  "cache_value \<Rightarrow> string list \<Rightarrow> (string \<times> string) list \<Rightarrow> error + (string \<times> string) list" where
  "cached_subset cached_info [] d = Inr d"
| "cached_subset cached_info (name # rest) d =
     (case subscript cached_info name of
        Inl e \<Rightarrow> Inl e
      | Inr v \<Rightarrow> cached_subset cached_info rest (dict_set name v d))"

text \<open>
  \<open>_get_info_from_cache\<close>: the result is \<open>None\<close> (Python's \<open>None\<close>) or a value. With
  requested names, the cached value is used only when no requested name is missing from
  it; otherwise the empty dictionary is returned. Without requested names the cached
  value itself is returned.
\<close>

definition get_info_from_cache ::
  "world \<Rightarrow> string \<Rightarrow> string list option \<Rightarrow> error + cache_value option" where
  "get_info_from_cache w cache_key table_names =
     (let cached_info = cache_get w cache_key;
          names = (case table_names of None \<Rightarrow> [] | Some ns \<Rightarrow> ns);
          fallback = (if names = [] then cached_info else Some (PyDict []))
      in case cached_info of
           None \<Rightarrow> Inr fallback
         | Some ci \<Rightarrow>
             if truthy ci \<and> names \<noteq> []
             then (let missing_tables = filter (\<lambda>name. \<not> contains ci name) names in
                   if missing_tables = []
                   then (case cached_subset ci names [] of
                           Inl e \<Rightarrow> Inl e | Inr d \<Rightarrow> Inr (Some (PyDict d)))
                   else Inr fallback)
             else Inr fallback)"

text \<open>\<open>_update_cache\<close>\<close>

definition update_cache :: "world \<Rightarrow> string \<Rightarrow> (string \<times> string) list \<Rightarrow> world" where
  "update_cache w cache_key tables_info = cache_set w cache_key (PyDict tables_info)"

text \<open>Running a function that can raise over a list, stopping at the first exception.\<close>

fun map_err :: "('a \<Rightarrow> error + 'b) \<Rightarrow> 'a list \<Rightarrow> error + 'b list" where
  "map_err f [] = Inr []"
| "map_err f (x # xs) =
     (case f x of
        Inl e \<Rightarrow> Inl e
      | Inr y \<Rightarrow> (case map_err f xs of Inl e \<Rightarrow> Inl e | Inr ys \<Rightarrow> Inr (y # ys)))"

text \<open>
  The cell expression of \<open>_get_sample_rows\<close>,
  \<open>str(i) if len(str(i)) < 100 else str[:100] + '...'\<close>: the second branch subscripts the
  type \<open>str\<close> itself, which raises TypeError.
\<close>

definition sample_cell :: "pyval \<Rightarrow> error + string" where
  "sample_cell i =
     (if length (py_str i) < 100 then Inr (py_str i)
      else Inl (TypeError (quoted ''type'' @ '' object is not subscriptable'')))"

definition sample_placeholder :: string where
  "sample_placeholder = [nl] @ [tab] @ '' [error] Couldn'' @ [sq] @ ''t retrieve sample rows!''"

text \<open>\<open>_get_sample_rows\<close>: every exception of the \<open>try\<close> body gives the placeholder.\<close>

definition sample_command :: "sql_agent \<Rightarrow> string \<Rightarrow> string list \<Rightarrow> string" where
  "sample_command self table field_names =
     ''select '' @ join '','' field_names @ '' from '' @ table @ '' limit '' @
     str_int (sample_rows_in_table_info self) @ '';''"

definition get_sample_rows ::
  "env \<Rightarrow> sql_agent \<Rightarrow> world \<Rightarrow> string \<Rightarrow> string list \<Rightarrow> string \<times> world" where
  "get_sample_rows E self w table field_names =
     (let command = sample_command self table field_names
      in case call_engine E self w command None of
           (Inl e, w') \<Rightarrow> (sample_placeholder, w')
         | (Inr ret, w') \<Rightarrow>
             (case answer_lists ret of
                Inl e \<Rightarrow> (sample_placeholder, w')
              | Inr sample_rows \<Rightarrow>
                  (case map_err (map_err sample_cell) sample_rows of
                     Inl e \<Rightarrow> (sample_placeholder, w')
                   | Inr rows \<Rightarrow> ([nl] @ join [nl] (map (join [tab]) rows), w'))))"

text \<open>
  \<open>_get_single_table_info\<close>: a table needs a database part; the last two parts are the
  integration and the table name.
\<close>

definition get_single_table_info ::
  "env \<Rightarrow> sql_agent \<Rightarrow> world \<Rightarrow> string list \<Rightarrow> (error + string) \<times> world" where
  "get_single_table_info E self w table =
     (if length table < 2
      then (Inl (ValueError (''Database is required for table: '' @ ident_str E table)), w)
      else (let integration = table ! (length table - 2);
                table_name = last table;
                table_str = ident_str E table
            in case get_table_columns E integration table_name of
                 Inl e \<Rightarrow> (Inl e, w)
               | Inr cols \<Rightarrow>
                   (let field_names = map fst cols;
                        dtypes = map (\<lambda>column. case snd column of None \<Rightarrow> [] | Some t \<Rightarrow> t) cols
                    in case get_sample_rows E self w table_str field_names of
                         (sample, w') \<Rightarrow>
                           (Inr (''Table named '' @ [bq] @ table_name @ [bq] @ [nl] @
                                 [nl] @ ''/* Sample with first '' @
                                 str_int (sample_rows_in_table_info self) @
                                 '' rows from table '' @ table_str @ '':'' @ [nl] @
                                 join [tab] field_names @ sample @ [nl] @ ''*/'' @
                                 [nl] @ ''Column data types: '' @
                                 join ('','' @ [tab])
                                   (map (\<lambda>(field, dtype). [bq] @ field @ [bq] @ '' : '' @
                                           [bq] @ dtype @ [bq]) (zip field_names dtypes)) @
                                 [nl]), w'))))"

text \<open>Iterating a cached value: the elements of a list or set, the keys of a dictionary.\<close>

fun iter_names :: "cache_value \<Rightarrow> string list" where
  "iter_names (PyList xs) = xs"
| "iter_names (PySet xs) = xs"
| "iter_names (PyDict kvs) = map fst kvs"

fun fetch_loop ::
  "env \<Rightarrow> sql_agent \<Rightarrow> world \<Rightarrow> string list list \<Rightarrow> (string \<times> string) list \<Rightarrow>
     (error + (string \<times> string) list) \<times> world" where
  "fetch_loop E self w [] tables_info = (Inr tables_info, w)"
| "fetch_loop E self w (table # rest) tables_info =
     (case get_single_table_info E self w table of
        (Inl e, w') \<Rightarrow> (Inl e, w')
      | (Inr info, w') \<Rightarrow> fetch_loop E self w' rest (dict_set (last table) info tables_info))"

text \<open>
  \<open>_fetch_table_info\<close>: the usable tables as identifiers, narrowed to the requested
  names when \<open>table_names\<close> is not \<open>None\<close>, each described in turn.
\<close>

definition fetch_table_info ::
  "env \<Rightarrow> sql_agent \<Rightarrow> world \<Rightarrow> string list option \<Rightarrow>
     (error + (string \<times> string) list) \<times> world" where
  "fetch_table_info E self w table_names =
     (case get_usable_table_names E self w of
        (Inl e, w') \<Rightarrow> (Inl e, w')
      | (Inr usable, w') \<Rightarrow>
          (case map_err (ident_parts E) (iter_names usable) of
             Inl e \<Rightarrow> (Inl e, w')
           | Inr all_tables \<Rightarrow>
               (case table_names of
                  None \<Rightarrow> fetch_loop E self w' all_tables []
                | Some names \<Rightarrow>
                    (case resolve_table_names E names all_tables of
                       Inl e \<Rightarrow> (Inl e, w')
                     | Inr tables \<Rightarrow> fetch_loop E self w' tables []))))"

text \<open>\<open>"\n\n".join(tables_info.values())\<close>: only a dictionary has \<open>values\<close>.\<close>

fun values_join :: "cache_value \<Rightarrow> error + string" where
  "values_join (PyDict kvs) = Inr (join [nl, nl] (map snd kvs))"
| "values_join (PySet xs) = Inl (no_attribute ''set'' ''values'')"
| "values_join (PyList xs) = Inl (no_attribute ''list'' ''values'')"

text \<open>
  \<open>get_table_info\<close>: a falsy result of the cache lookup (\<open>None\<close> or empty) starts a
  fetch, whose mapping is stored under the key; every exception becomes the error text.
\<close>

definition get_table_info ::
  "env \<Rightarrow> sql_agent \<Rightarrow> world \<Rightarrow> string list option \<Rightarrow> string \<times> world" where
  "get_table_info E self w table_names =
     (let cache_key = generate_cache_key E self table_names;
          failure = (\<lambda>e. ''Error fetching table info: '' @ exc_str e);
          fetched =
            (case fetch_table_info E self w table_names of
               (Inl e, w') \<Rightarrow> (failure e, w')
             | (Inr tables_info, w') \<Rightarrow>
                 (join [nl, nl] (map snd tables_info), update_cache w' cache_key tables_info))
      in case get_info_from_cache w cache_key table_names of
           Inl e \<Rightarrow> (failure e, w)
         | Inr None \<Rightarrow> fetched
         | Inr (Some tables_info) \<Rightarrow>
             if \<not> truthy tables_info then fetched
             else (case values_join tables_info of
                     Inl e \<Rightarrow> (failure e, w)
                   | Inr s \<Rightarrow> (s, w)))"

definition get_table_info_safe ::
  "env \<Rightarrow> sql_agent \<Rightarrow> world \<Rightarrow> string list option \<Rightarrow> string \<times> world" where
  "get_table_info_safe E self w table_names = get_table_info E self w table_names"

section \<open>Queries and their rendering\<close>

text \<open>
  \<open>_clean_query\<close>, \<open>re.sub(r'```(sql)?', '', query)\<close>: every run of three backticks is
  removed, together with a directly following \<open>sql\<close>.
\<close>

fun clean_query :: "string \<Rightarrow> string" where
  "clean_query [] = []"
| "clean_query (c # cs) =
     (if take 3 (c # cs) = [bq, bq, bq]
      then (if take 3 (drop 2 cs) = ''sql'' then clean_query (drop 5 cs)
            else clean_query (drop 2 cs))
      else c # clean_query cs)"

text \<open>
  \<open>_tidy\<close>: the argument is iterated, each of its elements is iterated as a row, and the
  \<open>str\<close> of the values of a row are joined by tabs, the rows by newlines.
\<close>

definition tidy_row :: "pyval \<Rightarrow> error + string" where
  "tidy_row row =
     (case py_iter row of Inl e \<Rightarrow> Inl e | Inr vals \<Rightarrow> Inr (join [tab] (map py_str vals)))"

definition tidy :: "pyval \<Rightarrow> error + string" where
  "tidy result =
     (case py_iter result of
        Inl e \<Rightarrow> Inl e
      | Inr rows \<Rightarrow>
          (case map_err tidy_row rows of Inl e \<Rightarrow> Inl e | Inr ls \<Rightarrow> Inr (join [nl] ls)))"

text \<open>\<open>_repr_result\<close>: above 30 rows, the description of the data and the first 30 rows.\<close>

definition limit_rows :: nat where
  "limit_rows = 30"

definition repr_result :: "env \<Rightarrow> result_set \<Rightarrow> error + string" where
  "repr_result E ret =
     (let columns_str = join '', '' (map repr_str (columns ret));
          res = ''Output columns: '' @ columns_str @ [nl];
          rows = to_lists ret
      in if length rows > limit_rows
         then (case describe E (columns ret) rows of
                 Inl e \<Rightarrow> Inl e
               | Inr description \<Rightarrow>
                   (case tidy (PList (map PList (take limit_rows rows))) of
                      Inl e \<Rightarrow> Inl e
                    | Inr t \<Rightarrow>
                        Inr (res @ ''Result has '' @ str_int (int (length rows)) @
                             '' rows. Description of data:'' @ [nl] @
                             description @ [nl, nl] @
                             ''First '' @ str_int (int limit_rows) @ '' rows:'' @ [nl] @ t)))
         else (case tidy (PList (map PList (take limit_rows rows))) of
                 Inl e \<Rightarrow> Inl e
               | Inr t \<Rightarrow> Inr (res @ ''Result:'' @ [nl] @ t)))"

text \<open>
  \<open>query\<close>: the statement is executed first; \<open>fetch\<close> is looked at afterwards. With
  \<open>fetch = "one"\<close> the first row itself, \<open>to_lists()[0]\<close>, is handed to \<open>_tidy\<close>.
\<close>

definition query ::
  "env \<Rightarrow> sql_agent \<Rightarrow> world \<Rightarrow> string \<Rightarrow> string \<Rightarrow> (error + string) \<times> world" where
  "query E self w command fetch =
     (case call_engine E self w (clean_query command) None of
        (Inl e, w') \<Rightarrow> (Inl e, w')
      | (Inr ret, w') \<Rightarrow>
          if fetch = ''all''
          then (case data ret of
                  None \<Rightarrow> (Inl (no_attribute ''NoneType'' ''columns''), w')
                | Some d \<Rightarrow> (repr_result E d, w'))
          else if fetch = ''one''
          then (case answer_lists ret of
                  Inl e \<Rightarrow> (Inl e, w')
                | Inr rows \<Rightarrow>
                    (case rows of
                       [] \<Rightarrow> (Inl (IndexError ''list index out of range''), w')
                     | row # rest \<Rightarrow> (tidy (PList row), w')))
          else (Inl (ValueError (''Fetch parameter must be either '' @ quoted ''one'' @
                                 '' or '' @ quoted ''all'')), w'))"

definition query_safe ::
  "env \<Rightarrow> sql_agent \<Rightarrow> world \<Rightarrow> string \<Rightarrow> string \<Rightarrow> string \<times> world" where
  "query_safe E self w command fetch =
     (case query E self w command fetch of
        (Inl e, w') \<Rightarrow> (''Error: '' @ exc_str e, w')
      | (Inr s, w') \<Rightarrow> (s, w'))"

section \<open>A concrete parser library for the examples\<close>

text \<open>
  Modelled from the spec: the \<open>Identifier\<close> class of the parser library is not part of
  the source. The spec describes an identifier as a dotted reference that is split into
  an ordered sequence of name parts, \<open>[database, table]\<close> or \<open>[table]\<close>. So
  \<open>dotted_parts\<close> splits a name at its dots, \<open>dotted_str\<close> joins the parts again. The
  general theorems below hold for every \<open>ident_parts\<close> and \<open>ident_str\<close>; these two are
  used where a concrete environment is evaluated.
\<close>

fun split_on :: "char \<Rightarrow> string \<Rightarrow> string list" where
  "split_on d [] = [[]]"
| "split_on d (c # cs) =
     (if c = d then [] # split_on d cs
      else (case split_on d cs of [] \<Rightarrow> [[c]] | p # ps \<Rightarrow> (c # p) # ps))"

definition dotted_parts :: "string \<Rightarrow> error + string list" where
  "dotted_parts s = Inr (split_on (CHR ''.'') s)"

definition dotted_str :: "string list \<Rightarrow> string" where
  "dotted_str parts = join ''.'' parts"

section \<open>Predicates on statements and a concrete environment\<close>

text \<open>A statement references a table when the traversal reaches an identifier flagged as one.\<close>

definition is_table_ref :: "node \<times> bool \<Rightarrow> bool" where
  "is_table_ref v = (case v of (Identifier ps, t) \<Rightarrow> t | (OtherNode, t) \<Rightarrow> False)"

definition references_table :: "ast \<Rightarrow> bool" where
  "references_table a = list_ex is_table_ref a"

text \<open>The parser gives every identifier at least one part.\<close>

definition has_parts :: "node \<times> bool \<Rightarrow> bool" where
  "has_parts v = (case v of (Identifier ps, t) \<Rightarrow> ps \<noteq> [] | (OtherNode, t) \<Rightarrow> True)"

definition well_formed :: "ast \<Rightarrow> bool" where
  "well_formed a = list_all has_parts a"

text \<open>
  A small data source: the database \<open>shop\<close> with the tables \<open>orders\<close> and \<open>secrets\<close>,
  three statements the parser knows, and the answers of the executor.
\<close>

definition secrets_ast :: ast where
  "secrets_ast = [(OtherNode, False), (Identifier [''secrets''], True)]"

definition orders_ast :: ast where
  "orders_ast = [(OtherNode, False), (Identifier [''orders''], True)]"

definition sample_ast :: ast where
  "sample_ast = [(Identifier [''id''], False), (Identifier [''note''], False),
                 (Identifier [''shop'', ''orders''], True)]"

definition example_parse :: "string \<Rightarrow> error + ast" where
  "example_parse q =
     (if q = ''select * from secrets'' then Inr secrets_ast
      else if q = ''select * from orders'' then Inr orders_ast
      else if q = ''select id,note from shop.orders limit 3;'' then Inr sample_ast
      else Inl (ExternalError ''syntax error''))"

definition two_rows :: answer where
  "two_rows = \<lparr> data = Some \<lparr> columns = [''id'', ''name''],
       to_lists = [[PInt 1, PStr ''a''], [PInt 2, PStr ''b'']] \<rparr> \<rparr>"

definition long_row :: answer where
  "long_row = \<lparr> data = Some \<lparr> columns = [''id'', ''note''],
       to_lists = [[PInt 1, PStr (replicate 100 (CHR ''x''))]] \<rparr> \<rparr>"

definition example_execute :: "ast \<Rightarrow> string \<Rightarrow> error + answer" where
  "example_execute a d = (if a = sample_ast then Inr long_row else Inr two_rows)"

definition example_env :: env where
  "example_env = \<lparr> company_id = PInt 7,
       parse_sql = example_parse,
       execute_command = example_execute,
       get_table_columns = (\<lambda>integration table. Inr [(''id'', Some ''int''), (''note'', None)]),
       ident_parts = dotted_parts,
       ident_str = dotted_str,
       describe = (\<lambda>cols rows. Inr ''(description)'') \<rparr>"

definition no_cache :: world where
  "no_cache = \<lparr> cache = None, executed = [] \<rparr>"

text \<open>A cache that already holds a table set under the key of tenant 7 and database \<open>shop\<close>.\<close>

definition warm_cache :: world where
  "warm_cache = \<lparr> cache = Some [''7_shop_tables'' \<mapsto> PySet [''shop.secrets'']],
                   executed = [] \<rparr>"

text \<open>The world with the entry under one key removed from the cache.\<close>

definition forget :: "string \<Rightarrow> world \<Rightarrow> world" where
  "forget k w = (case cache w of None \<Rightarrow> w | Some c \<Rightarrow> w\<lparr>cache := Some (c(k := None))\<rparr>)"

text \<open>A configured cache that holds nothing yet.\<close>

definition empty_cache :: world where
  "empty_cache = \<lparr> cache = Some Map.empty, executed = [] \<rparr>"

text \<open>The description of \<open>shop.orders\<close> that the concrete environment yields.\<close>

definition orders_info :: string where
  "orders_info =
     ''Table named '' @ [bq] @ ''orders'' @ [bq] @ [nl] @ [nl] @
     ''/* Sample with first 3 rows from table shop.orders:'' @ [nl] @
     ''id'' @ [tab] @ ''note'' @ sample_placeholder @ [nl] @ ''*/'' @ [nl] @
     ''Column data types: '' @ [bq] @ ''id'' @ [bq] @ '' : '' @ [bq] @ ''int'' @ [bq] @
     '','' @ [tab] @ [bq] @ ''note'' @ [bq] @ '' : '' @ [bq] @ [bq] @ [nl]"

definition shop_agent :: sql_agent where
  "shop_agent = init ''shop'' (Some [''shop.orders'']) None 3"

section \<open>Evaluation lemmas for the concrete environment\<close>

lemma str_int_small [simp]: "str_int 3 = ''3''" "str_int 7 = ''7''" "str_int 30 = ''30''"
  by (simp_all add: str_int_def nat_digits.simps)

lemma strip_bq_plain [simp]:
  "strip [bq] ''select * from secrets'' = ''select * from secrets''"
  "strip [bq] ''select * from orders'' = ''select * from orders''"
  "strip [bq] ''select id,note from shop.orders limit 3;''
     = ''select id,note from shop.orders limit 3;''"
  by (simp_all add: strip_def bq_def)

lemma clean_plain [simp]:
  "clean_query ''select * from secrets'' = ''select * from secrets''"
  "clean_query ''select * from orders'' = ''select * from orders''"
  by (simp_all add: bq_def)

section \<open>The allow-list check\<close>

lemma traversal_passes:
  "tables_to_include self = Some inc \<Longrightarrow> well_formed a \<Longrightarrow> check_tables self a = Inr ()"
  unfolding check_tables_def
  by (induction a)
     (auto simp: well_formed_def has_parts_def check_f_def Let_def split: node.splits)

lemma traversal_none:
  "tables_to_include self = None \<Longrightarrow> well_formed a \<Longrightarrow> references_table a \<Longrightarrow>
   check_tables self a = Inl none_not_iterable"
  unfolding check_tables_def
  by (induction a)
     (auto simp: well_formed_def has_parts_def references_table_def is_table_ref_def
        check_f_def Let_def split: node.splits)

lemma traversal_none_err:
  "tables_to_include self = None \<Longrightarrow> references_table a \<Longrightarrow> \<exists>e. check_tables self a = Inl e"
  unfolding check_tables_def
  by (induction a)
     (auto simp: references_table_def is_table_ref_def check_f_def Let_def
        split: node.splits sum.splits)

lemma call_engine_none:
  assumes "tables_to_include self = None" "parse_sql E (strip [bq] q) = Inr a"
    "references_table a" "well_formed a"
  shows "call_engine E self w q db = (Inl none_not_iterable, w)"
  using assms by (simp add: call_engine_def traversal_none)

lemma call_engine_none_err:
  assumes "tables_to_include self = None"
    "case parse_sql E (strip [bq] q) of Inl e \<Rightarrow> True | Inr a \<Rightarrow> references_table a"
  shows "\<exists>e. call_engine E self w q db = (Inl e, w)"
proof (cases "parse_sql E (strip [bq] q)")
  case (Inl e)
  then show ?thesis by (simp add: call_engine_def)
next
  case (Inr a)
  with assms have "references_table a" by simp
  from traversal_none_err [OF assms(1) this] obtain e where "check_tables self a = Inl e" ..
  with Inr show ?thesis by (simp add: call_engine_def)
qed

text \<open>
  C1. The claim: a command that references a table outside the include-list is rejected
  by \<open>_check_tables\<close> before the executor is invoked. The code builds the \<open>ValueError\<close>
  and never raises it. With the include-list \<open>['orders']\<close>, the command
  \<open>select * from secrets\<close> passes the check, reaches the executor (the log records the
  statement) and its answer is returned.
\<close>

theorem check_tables_lets_outsider_through:
  "call_engine example_env (init ''shop'' (Some [''orders'']) None 3) no_cache
     ''select * from secrets'' None
   = (Inr two_rows, \<lparr> cache = None, executed = [(secrets_ast, ''shop'')] \<rparr>)"
  by (simp add: call_engine_def example_env_def init_def no_cache_def
      example_parse_def check_tables_def secrets_ast_def check_f_def example_execute_def
      sample_ast_def)

text \<open>
  C10. With \<open>include_tables\<close> left as \<open>None\<close>, the membership test of \<open>_check_f\<close> is made
  against \<open>None\<close>. So for every statement that parses, references a table and whose
  identifiers have parts, \<open>_call_engine\<close> raises the TypeError of that test and the
  executor is not invoked; \<open>query\<close> raises the same error; and \<open>_get_sample_rows\<close> gives
  its placeholder whenever the sample command fails to parse or references a table.
\<close>

theorem no_include_list_type_error:
  assumes "tables_to_include self = None"
  shows "(\<forall>q a db. parse_sql E (strip [bq] q) = Inr a \<and> references_table a \<and> well_formed a \<longrightarrow>
            call_engine E self w q db = (Inl none_not_iterable, w))
       \<and> (\<forall>command a fetch.
            parse_sql E (strip [bq] (clean_query command)) = Inr a \<and> references_table a \<and>
            well_formed a \<longrightarrow>
            query E self w command fetch = (Inl none_not_iterable, w))
       \<and> (\<forall>table field_names.
            (case parse_sql E (strip [bq] (sample_command self table field_names)) of
               Inl e \<Rightarrow> True | Inr a \<Rightarrow> references_table a) \<longrightarrow>
            get_sample_rows E self w table field_names = (sample_placeholder, w))"
proof (intro conjI allI impI)
  fix q a db
  assume "parse_sql E (strip [bq] q) = Inr a \<and> references_table a \<and> well_formed a"
  then show "call_engine E self w q db = (Inl none_not_iterable, w)"
    using assms by (simp add: call_engine_none)
next
  fix command a fetch
  assume "parse_sql E (strip [bq] (clean_query command)) = Inr a \<and> references_table a \<and>
            well_formed a"
  then have "call_engine E self w (clean_query command) None = (Inl none_not_iterable, w)"
    using assms by (simp add: call_engine_none)
  then show "query E self w command fetch = (Inl none_not_iterable, w)"
    by (simp add: query_def)
next
  fix table field_names
  assume "case parse_sql E (strip [bq] (sample_command self table field_names)) of
               Inl e \<Rightarrow> True | Inr a \<Rightarrow> references_table a"
  from call_engine_none_err [OF assms this]
  obtain e where "call_engine E self w (sample_command self table field_names) None = (Inl e, w)"
    by blast
  then show "get_sample_rows E self w table field_names = (sample_placeholder, w)"
    by (simp add: get_sample_rows_def)
qed

theorem no_include_list_witness:
  "call_engine example_env (init ''shop'' None None 3) no_cache ''select * from secrets'' None
     = (Inl none_not_iterable, no_cache)
   \<and> query example_env (init ''shop'' None None 3) no_cache ''select * from secrets'' ''all''
     = (Inl none_not_iterable, no_cache)
   \<and> get_sample_rows example_env (init ''shop'' None None 3) no_cache ''shop.orders''
        [''id'', ''note''] = (sample_placeholder, no_cache)"
proof -
  let ?self = "init ''shop'' None None 3"
  have n: "tables_to_include ?self = None" by (simp add: init_def)
  note t = no_include_list_type_error [OF n, of example_env no_cache]
  have p: "parse_sql example_env (strip [bq] ''select * from secrets'') = Inr secrets_ast"
    by (simp add: example_env_def example_parse_def)
  have r: "references_table secrets_ast" "well_formed secrets_ast"
    by (simp_all add: secrets_ast_def references_table_def well_formed_def is_table_ref_def
        has_parts_def)
  have c: "sample_command ?self ''shop.orders'' [''id'', ''note'']
             = ''select id,note from shop.orders limit 3;''"
    by (simp add: sample_command_def init_def)
  have s: "parse_sql example_env
             (strip [bq] (sample_command ?self ''shop.orders'' [''id'', ''note'']))
           = Inr sample_ast"
    by (simp add: c example_env_def example_parse_def)
  have rs: "references_table sample_ast"
    by (simp add: sample_ast_def references_table_def is_table_ref_def)
  from t p r have 1: "call_engine example_env ?self no_cache ''select * from secrets'' None
     = (Inl none_not_iterable, no_cache)" by blast
  from t p r have 2: "query example_env ?self no_cache ''select * from secrets'' ''all''
     = (Inl none_not_iterable, no_cache)" by (metis clean_plain(1))
  from t s rs have 3: "get_sample_rows example_env ?self no_cache ''shop.orders''
        [''id'', ''note''] = (sample_placeholder, no_cache)" by simp
  from 1 2 3 show ?thesis by blast
qed

section \<open>The table list\<close>

lemma key_of_tenant_7 [simp]:
  "tables_cache_key example_env (init ''shop'' inc ign n) = ''7_shop_tables''"
  by (simp add: tables_cache_key_def example_env_def init_def py_str_def)

text \<open>
  C2, as amended. The claim: with an include-list configured, \<open>get_usable_table_names\<close>
  returns it verbatim whatever the cache holds. The code looks into the cache first. What
  holds: with a non-empty include-list, the result is the non-empty value cached under
  the tenant's table key when there is one, and the include-list itself otherwise; in
  both cases nothing is discovered (no statement reaches the executor) and the cache is
  left as it was.
\<close>

theorem include_list_after_cache:
  assumes "tables_to_include self = Some inc" and "inc \<noteq> []"
  shows "get_usable_table_names E self w =
     (case cache_get w (tables_cache_key E self) of
        None \<Rightarrow> (Inr (PyList inc), w)
      | Some v \<Rightarrow> if truthy v then (Inr v, w) else (Inr (PyList inc), w))"
  using assms by (simp add: get_usable_table_names_def Let_def split: option.splits)

theorem include_list_witness:
  "get_usable_table_names example_env (init ''shop'' (Some [''orders'']) None 3) no_cache
     = (Inr (PyList [''orders'']), no_cache)
   \<and> get_usable_table_names example_env (init ''shop'' (Some [''orders'']) None 3) warm_cache
     = (Inr (PySet [''shop.secrets'']), warm_cache)"
proof -
  let ?self = "init ''shop'' (Some [''orders'']) None 3"
  have i: "tables_to_include ?self = Some [''orders'']" "[''orders''] \<noteq> []"
    by (simp_all add: init_def)
  show ?thesis
    using include_list_after_cache [OF i, of example_env no_cache]
      include_list_after_cache [OF i, of example_env warm_cache]
    by (simp add: cache_get_def no_cache_def warm_cache_def)
qed

text \<open>
  The claim of C2 as stated fails: with the include-list \<open>['orders']\<close> and a cache that
  holds \<open>{'shop.secrets'}\<close> under the key, the cached set is returned, which is not a
  subset of the include-list.
\<close>

theorem cached_tables_override_include_list:
  "get_usable_table_names example_env (init ''shop'' (Some [''orders'']) None 3) warm_cache
     = (Inr (PySet [''shop.secrets'']), warm_cache)
   \<and> \<not> set (iter_names (PySet [''shop.secrets''])) \<subseteq> set [''orders'']"
  by (simp add: get_usable_table_names_def cache_get_def warm_cache_def Let_def)

section \<open>Rendering\<close>

lemma map_err_tidy_rows:
  "map_err tidy_row (map PList rows) = Inr (map (\<lambda>row. join [tab] (map py_str row)) rows)"
  by (induction rows) (simp_all add: tidy_row_def py_iter_def)

lemma tidy_rows:
  "tidy (PList (map PList rows)) =
     Inr (join [nl] (map (\<lambda>row. join [tab] (map py_str row)) rows))"
  by (simp add: tidy_def py_iter_def map_err_tidy_rows)

lemma orders_answer:
  "call_engine example_env (init ''shop'' (Some [''orders'']) None 3) no_cache
     ''select * from orders'' None
   = (Inr two_rows, \<lparr> cache = None, executed = [(orders_ast, ''shop'')] \<rparr>)"
  by (simp add: call_engine_def example_env_def init_def no_cache_def
      example_parse_def check_tables_def orders_ast_def check_f_def example_execute_def
      sample_ast_def)

lemma tidy_of_a_row:
  "tidy (PList [PInt 1, PStr ''a'']) =
     Inl (TypeError (quoted ''int'' @ '' object is not iterable''))"
  by (simp add: tidy_def py_iter_def tidy_row_def type_name_def)

text \<open>
  C7. The claim: \<open>query(sql, fetch="one")\<close> on the rows \<open>[[1,"a"],[2,"b"]]\<close> returns
  \<open>"1\ta"\<close>. The code hands the first row itself to \<open>_tidy\<close>, which iterates its argument
  as a list of rows: the first "row" is the integer 1, and iterating it raises TypeError.
\<close>

theorem fetch_one_raises:
  "query example_env (init ''shop'' (Some [''orders'']) None 3) no_cache
     ''select * from orders'' ''one''
   = (Inl (TypeError (quoted ''int'' @ '' object is not iterable'')),
      \<lparr> cache = None, executed = [(orders_ast, ''shop'')] \<rparr>)"
  by (simp add: query_def bq_def orders_answer tidy_of_a_row two_rows_def answer_lists_def)

text \<open>
  C8. \<open>_repr_result\<close> on more than 30 rows (the description of the data being available)
  gives the column names, the number of rows, the description and then exactly the first
  30 rows, each joined by tabs, one per line; on 30 rows or fewer it gives the column
  names and all rows, with no description.
\<close>

theorem repr_result_layout:
  "(length (to_lists ret) > 30 \<and> describe E (columns ret) (to_lists ret) = Inr d \<longrightarrow>
      repr_result E ret =
        Inr (''Output columns: '' @ join '', '' (map repr_str (columns ret)) @ [nl] @
             ''Result has '' @ str_int (int (length (to_lists ret))) @
             '' rows. Description of data:'' @ [nl] @ d @ [nl, nl] @
             ''First 30 rows:'' @ [nl] @
             join [nl] (map (\<lambda>row. join [tab] (map py_str row)) (take 30 (to_lists ret))))
      \<and> length (take 30 (to_lists ret)) = 30)
   \<and> (length (to_lists ret) \<le> 30 \<longrightarrow>
      repr_result E ret =
        Inr (''Output columns: '' @ join '', '' (map repr_str (columns ret)) @ [nl] @
             ''Result:'' @ [nl] @
             join [nl] (map (\<lambda>row. join [tab] (map py_str row)) (to_lists ret))))"
  by (auto simp: repr_result_def limit_rows_def Let_def tidy_rows)

lemma repr_names:
  "repr_str ''id'' = [sq] @ ''id'' @ [sq]" "repr_str ''name'' = [sq] @ ''name'' @ [sq]"
  by (simp_all add: repr_str_def repr_char_def Let_def sq_def dq_def bsl_def tab_def nl_def
      cr_def printable_def)

lemma str_int_more: "str_int 40 = ''40''" "str_int 1 = ''1''" "str_int 2 = ''2''"
  by (simp_all add: str_int_def nat_digits.simps)

theorem repr_result_layout_witness:
  "repr_result example_env \<lparr> columns = [''id'', ''name''],
       to_lists = replicate 40 [PInt 1, PStr ''a''] \<rparr>
     = Inr (''Output columns: '' @ quoted ''id'' @ '', '' @ quoted ''name'' @ [nl] @
            ''Result has 40 rows. Description of data:'' @ [nl] @ ''(description)'' @ [nl, nl] @
            ''First 30 rows:'' @ [nl] @ join [nl] (replicate 30 ([CHR ''1'', tab, CHR ''a''])))
   \<and> repr_result example_env \<lparr> columns = [''id'', ''name''],
       to_lists = [[PInt 1, PStr ''a''], [PInt 2, PStr ''b'']] \<rparr>
     = Inr (''Output columns: '' @ quoted ''id'' @ '', '' @ quoted ''name'' @ [nl] @
            ''Result:'' @ [nl] @ [CHR ''1'', tab, CHR ''a'', nl, CHR ''2'', tab, CHR ''b''])"
proof -
  let ?big = "\<lparr> columns = [''id'', ''name''], to_lists = replicate 40 [PInt 1, PStr ''a''] \<rparr>"
  let ?small = "\<lparr> columns = [''id'', ''name''],
       to_lists = [[PInt 1, PStr ''a''], [PInt 2, PStr ''b'']] \<rparr>"
  have d: "describe example_env (columns ?big) (to_lists ?big) = Inr ''(description)''"
    by (simp add: example_env_def)
  have 1: "length (to_lists ?big) > 30" by simp
  have 2: "length (to_lists ?small) \<le> 30" by simp
  from repr_result_layout [of ?big example_env "''(description)''"] 1 d
  have b: "repr_result example_env ?big =
        Inr (''Output columns: '' @ join '', '' (map repr_str (columns ?big)) @ [nl] @
             ''Result has '' @ str_int (int (length (to_lists ?big))) @
             '' rows. Description of data:'' @ [nl] @ ''(description)'' @ [nl, nl] @
             ''First 30 rows:'' @ [nl] @
             join [nl] (map (\<lambda>row. join [tab] (map py_str row)) (take 30 (to_lists ?big))))"
    by blast
  from repr_result_layout [of ?small example_env "''''"] 2
  have s: "repr_result example_env ?small =
        Inr (''Output columns: '' @ join '', '' (map repr_str (columns ?small)) @ [nl] @
             ''Result:'' @ [nl] @
             join [nl] (map (\<lambda>row. join [tab] (map py_str row)) (to_lists ?small)))"
    by blast
  show ?thesis
    by (simp add: b s repr_names quoted_def str_int_more py_str_def)
qed

lemma tidy_long_row:
  "tidy (PList (map PList [[PInt 1, PStr (replicate 100 (CHR ''x''))]]))
   = Inr (''1'' @ [tab] @ replicate 100 (CHR ''x''))"
  unfolding tidy_rows by (simp add: py_str_def str_int_more)

text \<open>
  C9. The claim: \<open>_get_sample_rows\<close> renders a value of 100 characters or more as its
  first 100 characters and \<open>...\<close>, while \<open>_tidy\<close> renders every value at full length. The
  second part holds. For the first, the code writes \<open>str[:100]\<close>, a subscript of the type
  \<open>str\<close>: on a sample row with a value of 100 characters the TypeError is caught and
  the whole sample is replaced by the placeholder. The statement was executed, and
  \<open>_tidy\<close> prints the same row with all 100 characters.
\<close>

theorem long_sample_value_gives_placeholder:
  "get_sample_rows example_env (init ''shop'' (Some [''orders'']) None 3) no_cache
      ''shop.orders'' [''id'', ''note'']
   = (sample_placeholder, \<lparr> cache = None, executed = [(sample_ast, ''shop'')] \<rparr>)
   \<and> tidy (PList (map PList [[PInt 1, PStr (replicate 100 (CHR ''x''))]]))
   = Inr (''1'' @ [tab] @ replicate 100 (CHR ''x''))"
  using tidy_long_row
  by (simp add: get_sample_rows_def sample_command_def call_engine_def example_env_def
      init_def no_cache_def example_parse_def check_tables_def check_f_def
      example_execute_def sample_ast_def long_row_def answer_lists_def sample_cell_def
      py_str_def)

section \<open>The cache key\<close>

lemma length_sha256: "length (sha256_hexdigest m) = 64"
  by (simp add: sha256_hexdigest_def hex8_def split: prod.splits)

lemma sort_of_permutation: "mset xs = mset ys \<Longrightarrow> sort xs = sort (ys :: string list)"
  by (rule properties_for_sort) simp_all

text \<open>
  C4. \<open>_generate_cache_key\<close> depends only on the tenant id, the database and the
  requested names up to their order: two lists of names that are permutations of each
  other give the same key (for equal tenant and database), and every key, with or without
  names, has the 64 characters of a SHA-256 hexadecimal digest.
\<close>

theorem cache_key_stable:
  assumes "company_id E1 = company_id E2" and "database a1 = database a2"
    and "mset names1 = mset names2"
  shows "generate_cache_key E1 a1 (Some names1) = generate_cache_key E2 a2 (Some names2)
       \<and> length (generate_cache_key E1 a1 table_names) = 64"
proof -
  from assms(3) have s: "sort names1 = sort names2" by (rule sort_of_permutation)
  from assms(3) have e: "names1 = [] \<longleftrightarrow> names2 = []"
    by (metis mset_zero_iff)
  show ?thesis
    using assms(1,2) s e by (simp add: generate_cache_key_def Let_def length_sha256)
qed

theorem cache_key_stable_witness:
  "generate_cache_key example_env (init ''shop'' None None 3) (Some [''b'', ''a''])
     = generate_cache_key example_env (init ''shop'' None None 3) (Some [''a'', ''b''])
   \<and> length (generate_cache_key example_env (init ''shop'' None None 3) None) = 64"
proof -
  have "mset [''b'', ''a''] = mset [''a'', ''b'']" by (simp add: add.commute)
  from cache_key_stable [OF refl refl this] show ?thesis by blast
qed

section \<open>The identifier resolver\<close>

lemma build_idx_lookup:
  assumes "\<forall>t\<in>set cat. t \<noteq> []" and "\<forall>t\<in>set cat. last t = last e \<longrightarrow> t = e"
    and "k = [last e] \<or> k = e" and "e \<in> set cat \<or> m k = Some e"
  shows "\<exists>idx. build_idx cat m = Inr idx \<and> idx k = Some e"
  using assms
proof (induction cat arbitrary: m)
  case Nil
  then show ?case by simp
next
  case (Cons t cat)
  let ?m = "m([last t] \<mapsto> t, t \<mapsto> t)"
  have ne: "t \<noteq> []" using Cons.prems(1) by simp
  have "e \<in> set cat \<or> ?m k = Some e"
  proof (cases "t = e")
    case True
    with Cons.prems(3) show ?thesis by auto
  next
    case False
    with Cons.prems(2) have l: "last t \<noteq> last e" by auto
    with False Cons.prems(3) have "k \<noteq> [last t]" "k \<noteq> t" by auto
    with Cons.prems(4) False show ?thesis by auto
  qed
  with Cons.prems(1,2,3) have "\<exists>idx. build_idx cat ?m = Inr idx \<and> idx k = Some e"
    by (intro Cons.IH) auto
  with ne show ?case by (simp only: build_idx.simps if_False)
qed

text \<open>
  C5, as amended. The claim: the backtick-wrapped \<open>Orders\<close>, the quoted \<open>orders\<close> and
  the bare \<open>orders\<close> all resolve to the entry \<open>shop.orders\<close>, identifiers being matched
  case-insensitively. The code strips the surrounding backticks, quotes and whitespace
  and then looks the parts up as they are. What holds: when the entry is the only one of
  the catalog with its simple name, every raw string whose stripped form has the parts of
  the simple name alone or of the full path resolves to that entry; the match is exact,
  so \<open>orders\<close> in backticks or quotes resolves and \<open>Orders\<close> does not.
\<close>

theorem resolve_exact_match:
  assumes "e \<in> set catalog" and "\<forall>t\<in>set catalog. t \<noteq> []"
    and "\<forall>t\<in>set catalog. last t = last e \<longrightarrow> t = e"
    and "ident_parts E (strip strip_chars raw) = Inr p" and "p = [last e] \<or> p = e"
  shows "resolve_table_names E [raw] catalog = Inr [e]"
proof -
  from build_idx_lookup [OF assms(2) assms(3) assms(5), of Map.empty] assms(1)
  obtain idx where "build_idx catalog Map.empty = Inr idx" "idx p = Some e" by blast
  with assms(4) show ?thesis by (simp add: resolve_table_names_def)
qed

lemma strip_orders:
  "strip strip_chars ([bq] @ ''orders'' @ [bq]) = ''orders''"
  "strip strip_chars ([dq] @ ''orders'' @ [dq]) = ''orders''"
  "strip strip_chars ''orders'' = ''orders''"
  "strip strip_chars ('' '' @ [bq] @ ''shop.orders'' @ [bq, nl]) = ''shop.orders''"
  "strip strip_chars ([bq] @ ''Orders'' @ [bq]) = ''Orders''"
  "strip strip_chars ([bq] @ ''foo'' @ [bq]) = ''foo''"
  by (simp_all add: strip_def strip_chars_def bq_def dq_def sq_def nl_def cr_def)

lemma dotted_examples:
  "dotted_parts ''orders'' = Inr [''orders'']"
  "dotted_parts ''shop.orders'' = Inr [''shop'', ''orders'']"
  "dotted_parts ''Orders'' = Inr [''Orders'']"
  "dotted_parts ''foo'' = Inr [''foo'']"
  by (simp_all add: dotted_parts_def)

theorem resolve_exact_match_witness:
  "resolve_table_names example_env [[bq] @ ''orders'' @ [bq]] [[''shop'', ''orders'']]
     = Inr [[''shop'', ''orders'']]
   \<and> resolve_table_names example_env [[dq] @ ''orders'' @ [dq]] [[''shop'', ''orders'']]
     = Inr [[''shop'', ''orders'']]
   \<and> resolve_table_names example_env [''orders''] [[''shop'', ''orders'']]
     = Inr [[''shop'', ''orders'']]
   \<and> resolve_table_names example_env ['' '' @ [bq] @ ''shop.orders'' @ [bq, nl]]
        [[''shop'', ''orders'']]
     = Inr [[''shop'', ''orders'']]"
proof -
  let ?e = "[''shop'', ''orders'']"
  have c: "?e \<in> set [?e]" "\<forall>t\<in>set [?e]. t \<noteq> []" "\<forall>t\<in>set [?e]. last t = last ?e \<longrightarrow> t = ?e"
    by simp_all
  have i: "ident_parts example_env = dotted_parts" by (simp add: example_env_def)
  have 1: "ident_parts example_env (strip strip_chars ([bq] @ ''orders'' @ [bq])) = Inr [''orders'']"
    and 2: "ident_parts example_env (strip strip_chars ([dq] @ ''orders'' @ [dq])) = Inr [''orders'']"
    and 3: "ident_parts example_env (strip strip_chars ''orders'') = Inr [''orders'']"
    and 4: "ident_parts example_env (strip strip_chars ('' '' @ [bq] @ ''shop.orders'' @ [bq, nl])) = Inr ?e"
    by (simp_all only: i strip_orders dotted_examples)
  have s: "[''orders''] = [last ?e] \<or> [''orders''] = ?e" "?e = [last ?e] \<or> ?e = ?e" by simp_all
  show ?thesis
    using resolve_exact_match [OF c 1 s(1)] resolve_exact_match [OF c 2 s(1)]
      resolve_exact_match [OF c 3 s(1)] resolve_exact_match [OF c 4 s(2)]
    by blast
qed

text \<open>
  The claim of C5 as stated fails on its first string: \<open>Orders\<close> in backticks is
  stripped to \<open>Orders\<close>, which is no key of the index built from \<open>shop.orders\<close>.
\<close>

theorem resolve_is_case_sensitive:
  "resolve_table_names example_env [[bq] @ ''Orders'' @ [bq]] [[''shop'', ''orders'']]
     = Inl (ValueError ''Table Orders not found in database'')"
proof -
  have i: "ident_parts example_env = dotted_parts" "ident_str example_env = dotted_str"
    by (simp_all add: example_env_def)
  have "ident_parts example_env (strip strip_chars ([bq] @ ''Orders'' @ [bq])) = Inr [''Orders'']"
    by (simp only: i strip_orders dotted_examples)
  then show ?thesis
    by (simp add: resolve_table_names_def i dotted_str_def)
qed

lemma resolve_loop_no_partial:
  assumes "ident_parts E (strip strip_chars raw) = Inr p" and "idx p = None"
  shows "resolve_loop E idx (xs @ raw # ys) \<noteq> Inr ts"
  using assms
  by (induction xs arbitrary: ts) (auto simp: Let_def split: sum.splits option.splits)

lemma resolve_loop_first_failure:
  assumes "list_all (\<lambda>n. case ident_parts E (strip strip_chars n) of
                             Inl e \<Rightarrow> False | Inr q \<Rightarrow> idx q \<noteq> None) pre"
    and "ident_parts E (strip strip_chars raw) = Inr p" and "idx p = None"
  shows "resolve_loop E idx (pre @ raw # post)
         = Inl (ValueError (''Table '' @ ident_str E p @ '' not found in database''))"
  using assms
  by (induction pre) (auto simp: Let_def split: sum.splits option.splits)

text \<open>
  C6, as amended. The claim: an unresolved name fails the whole batch with a not-found
  error that names the string as the caller supplied it. The code builds the message
  from the identifier of the stripped name. What holds, for an index built from the
  catalog and a name whose stripped form has no entry: when the names before it resolve,
  the batch fails with the not-found error that names the identifier built from the
  stripped name; and wherever the name stands in a batch, no sequence of entries is
  returned.
\<close>

theorem resolve_fails_fast:
  assumes "build_idx catalog Map.empty = Inr idx"
    and "ident_parts E (strip strip_chars raw) = Inr p" and "idx p = None"
  shows "(list_all (\<lambda>n. case ident_parts E (strip strip_chars n) of
                             Inl e \<Rightarrow> False | Inr q \<Rightarrow> idx q \<noteq> None) pre \<longrightarrow>
          resolve_table_names E (pre @ raw # post) catalog
            = Inl (ValueError (''Table '' @ ident_str E p @ '' not found in database'')))
       \<and> resolve_table_names E (xs @ raw # ys) catalog \<noteq> Inr ts"
  using assms
    resolve_loop_first_failure [where E = E and idx = idx and pre = pre and raw = raw
      and p = p and post = post]
    resolve_loop_no_partial [where E = E and idx = idx and raw = raw and p = p and xs = xs
      and ys = ys and ts = ts]
  by (simp add: resolve_table_names_def)

theorem resolve_fails_fast_witness:
  "resolve_table_names example_env [''orders'', [bq] @ ''foo'' @ [bq], ''shop.orders'']
      [[''shop'', ''orders'']]
     = Inl (ValueError ''Table foo not found in database'')"
proof -
  let ?idx = "[[''orders''] \<mapsto> [''shop'', ''orders''], [''shop'', ''orders''] \<mapsto> [''shop'', ''orders'']]"
  have b: "build_idx [[''shop'', ''orders'']] Map.empty = Inr ?idx" by simp
  have i: "ident_parts example_env = dotted_parts" by (simp add: example_env_def)
  have r: "ident_parts example_env (strip strip_chars ([bq] @ ''foo'' @ [bq])) = Inr [''foo'']"
    by (simp only: i strip_orders dotted_examples)
  have n: "?idx [''foo''] = None" by simp
  have p: "list_all (\<lambda>n. case ident_parts example_env (strip strip_chars n) of
                             Inl e \<Rightarrow> False | Inr q \<Rightarrow> ?idx q \<noteq> None) [''orders'']"
    by (simp add: i strip_orders dotted_examples)
  from resolve_fails_fast [OF b r n, of "[''orders'']" "[''shop.orders'']"] p
  show ?thesis by (simp add: example_env_def dotted_str_def)
qed

text \<open>
  The claim of C6 as stated fails: for the supplied string \<open>foo\<close> in backticks the
  message names \<open>foo\<close>, and holds no backtick at all.
\<close>

theorem not_found_names_stripped_identifier:
  "resolve_table_names example_env [[bq] @ ''foo'' @ [bq]] [[''shop'', ''orders'']]
     = Inl (ValueError ''Table foo not found in database'')
   \<and> bq \<notin> set ''Table foo not found in database''"
proof -
  have i: "ident_parts example_env = dotted_parts" "ident_str example_env = dotted_str"
    by (simp_all add: example_env_def)
  have "ident_parts example_env (strip strip_chars ([bq] @ ''foo'' @ [bq])) = Inr [''foo'']"
    by (simp only: i strip_orders dotted_examples)
  then have "resolve_table_names example_env [[bq] @ ''foo'' @ [bq]] [[''shop'', ''orders'']]
     = Inl (ValueError ''Table foo not found in database'')"
    by (simp add: resolve_table_names_def i dotted_str_def)
  moreover have "bq \<notin> set ''Table foo not found in database''"
    by (simp add: bq_def)
  ultimately show ?thesis by blast
qed

section \<open>Table information and the cache\<close>

lemma dict_set_set: "set (dict_set k v ps) \<subseteq> insert (k, v) (set ps)"
  by (induction ps) auto

lemma dict_set_keys: "fst ` set (dict_set k v ps) = insert k (fst ` set ps)"
  by (induction ps) auto

lemma dict_set_distinct: "distinct (map fst ps) \<Longrightarrow> distinct (map fst (dict_set k v ps))"
  by (induction ps) (auto simp: dict_set_keys)

lemma cached_subset_dict:
  assumes "set names \<subseteq> fst ` set d" and "distinct (map fst acc)"
  shows "\<exists>sel. cached_subset (PyDict d) names acc = Inr sel \<and> distinct (map fst sel) \<and>
               set sel \<subseteq> set acc \<union> set d \<and> fst ` set sel = fst ` set acc \<union> set names"
  using assms
proof (induction names arbitrary: acc)
  case Nil
  then show ?case by simp
next
  case (Cons n names)
  from Cons.prems(1) have "n \<in> fst ` set d" by simp
  then obtain v where v: "map_of d n = Some v"
    by (metis domD dom_map_of_conv_image_fst)
  then have m: "(n, v) \<in> set d" by (rule map_of_SomeD)
  from Cons.prems have "set names \<subseteq> fst ` set d" "distinct (map fst (dict_set n v acc))"
    by (simp_all add: dict_set_distinct)
  from Cons.IH [OF this] obtain sel where
    s: "cached_subset (PyDict d) names (dict_set n v acc) = Inr sel" "distinct (map fst sel)"
       "set sel \<subseteq> set (dict_set n v acc) \<union> set d"
       "fst ` set sel = fst ` set (dict_set n v acc) \<union> set names"
    by blast
  from s(3) m dict_set_set [of n v acc] have "set sel \<subseteq> set acc \<union> set d" by auto
  with s v show ?case by (auto simp: dict_set_keys)
qed

lemma missing_name_no_hit:
  assumes "n \<in> set names" and "\<not> contains ci n"
  shows "filter (\<lambda>name. \<not> contains ci name) names \<noteq> []"
  using assms by (auto simp: filter_empty_conv)

text \<open>A digest has hexadecimal digits only, so it differs from every table-list key.\<close>

lemma hex_digit_in: "n < 16 \<Longrightarrow> ''0123456789abcdef'' ! n \<in> set ''0123456789abcdef''"
  by (rule nth_mem) simp

lemma nibble_bound: "unat ((y :: 32 word) AND 15) < 16"
proof -
  have "y AND 15 \<le> 15" by (rule word_and_le1)
  then have "unat (y AND 15) \<le> unat (15 :: 32 word)" by (simp add: word_le_nat_alt)
  then show ?thesis by simp
qed

lemma hex8_digits: "set (hex8 x) \<subseteq> set ''0123456789abcdef''"
proof -
  have "\<And>y :: 32 word. ''0123456789abcdef'' ! unat (y AND 15) \<in> set ''0123456789abcdef''"
    by (rule hex_digit_in [OF nibble_bound])
  then show ?thesis unfolding hex8_def set_map by blast
qed

lemma sha256_digits: "set (sha256_hexdigest m) \<subseteq> set ''0123456789abcdef''"
proof -
  obtain a b c d e f g h where
    s: "foldl compress sha_init (chunks 64 (pad m)) = (a, b, c, d, e, f, g, h)"
    by (metis prod_cases4)
  have "set (concat (map hex8 [a, b, c, d, e, f, g, h])) \<subseteq> set ''0123456789abcdef''"
    unfolding set_concat set_map using hex8_digits by blast
  with s show ?thesis by (simp only: sha256_hexdigest_def prod.case)
qed

lemma keys_differ: "generate_cache_key E self names \<noteq> tables_cache_key E' self'"
proof
  assume e: "generate_cache_key E self names = tables_cache_key E' self'"
  have "CHR ''_'' \<in> set (tables_cache_key E' self')" by (simp add: tables_cache_key_def)
  with e have "CHR ''_'' \<in> set (generate_cache_key E self names)" by simp
  then have "CHR ''_'' \<in> set ''0123456789abcdef''"
    using sha256_digits by (auto simp: generate_cache_key_def Let_def)
  then show False by simp
qed


text \<open>
  Nothing but the cache lookups of \<open>get_usable_table_names\<close> and \<open>get_table_info\<close>
  reads the cache, each under its own key: removing the entry of another key commutes
  with every function of the fetch.
\<close>

lemma cache_get_forget: "k' \<noteq> k \<Longrightarrow> cache_get (forget k w) k' = cache_get w k'"
  by (simp add: cache_get_def forget_def split: option.splits)

lemma cache_get_forget_same: "cache_get (forget k w) k = None"
  by (simp add: cache_get_def forget_def split: option.splits)

lemma cache_set_forget:
  "k' \<noteq> k \<Longrightarrow> cache_set (forget k w) k' v = forget k (cache_set w k' v)"
  by (auto simp: cache_set_def forget_def fun_upd_twist split: option.splits)

lemma cache_set_forget_same: "cache_set (forget k w) k v = cache_set w k v"
  by (simp add: cache_set_def forget_def split: option.splits)

lemma forget_log: "forget k (w\<lparr>executed := x\<rparr>) = (forget k w)\<lparr>executed := x\<rparr>"
  "executed (forget k w) = executed w"
  by (simp_all add: forget_def split: option.splits)

lemma call_engine_forget:
  "call_engine E self (forget k w) q db = apsnd (forget k) (call_engine E self w q db)"
  by (simp add: call_engine_def forget_log Let_def split: sum.splits)

lemma show_tables_forget:
  "show_tables E self (forget k w) db = apsnd (forget k) (show_tables E self w db)"
  by (simp add: show_tables_def call_engine_forget split: prod.splits sum.splits)

lemma discover_forget:
  "discover E self dbs (forget k w) acc = apsnd (forget k) (discover E self dbs w acc)"
  by (induction dbs arbitrary: w acc)
     (simp_all add: show_tables_forget split: prod.splits sum.splits)

lemma get_usable_forget:
  assumes "k \<noteq> tables_cache_key E self"
  shows "get_usable_table_names E self (forget k w)
         = apsnd (forget k) (get_usable_table_names E self w)"
  using assms
  by (simp add: get_usable_table_names_def Let_def cache_get_forget call_engine_forget
      discover_forget cache_set_forget split: prod.splits sum.splits option.splits)

lemma get_sample_rows_forget:
  "get_sample_rows E self (forget k w) table fs
   = apsnd (forget k) (get_sample_rows E self w table fs)"
  by (simp add: get_sample_rows_def Let_def call_engine_forget split: prod.splits sum.splits)

lemma get_single_table_info_forget:
  "get_single_table_info E self (forget k w) table
   = apsnd (forget k) (get_single_table_info E self w table)"
  by (simp add: get_single_table_info_def Let_def get_sample_rows_forget
      split: prod.splits sum.splits)

lemma fetch_loop_forget:
  "fetch_loop E self (forget k w) tables acc
   = apsnd (forget k) (fetch_loop E self w tables acc)"
  by (induction tables arbitrary: w acc)
     (simp_all add: get_single_table_info_forget split: prod.splits sum.splits)

lemma fetch_table_info_forget:
  assumes "k \<noteq> tables_cache_key E self"
  shows "fetch_table_info E self (forget k w) table_names
         = apsnd (forget k) (fetch_table_info E self w table_names)"
  using assms
  by (simp add: fetch_table_info_def get_usable_forget fetch_loop_forget
      split: prod.splits sum.splits option.splits)

lemma stale_entry_ignored:
  assumes "names \<noteq> []"
    and "cache_get w (generate_cache_key E self (Some names)) = None
         \<or> (\<exists>ci n. cache_get w (generate_cache_key E self (Some names)) = Some ci \<and>
                  n \<in> set names \<and> \<not> contains ci n)"
  shows "fst (get_table_info E self (forget (generate_cache_key E self (Some names)) w) (Some names))
         = fst (get_table_info E self w (Some names))"
proof -
  let ?k = "generate_cache_key E self (Some names)"
  have 1: "get_info_from_cache w ?k (Some names) = Inr (Some (PyDict []))"
    using assms by (auto simp: get_info_from_cache_def Let_def filter_empty_conv)
  have 2: "get_info_from_cache (forget ?k w) ?k (Some names) = Inr (Some (PyDict []))"
    using assms(1) by (simp add: get_info_from_cache_def Let_def cache_get_forget_same)
  show ?thesis
    by (simp add: get_table_info_def Let_def 1 2 fetch_table_info_forget [OF keys_differ]
        split: prod.splits sum.splits)
qed

text \<open>
  C3. For a non-empty list of requested names, \<open>get_table_info\<close> does all or nothing
  with the cache. When the cache has no value under the key, or some requested name is
  missing from the cached value, the outcome is that of a full fetch of the requested
  tables: the descriptions fetched, joined, with the fetched mapping stored under the key
  (or the error text when the fetch raises); and the text returned is the one returned
  when the stale entry is removed from the cache beforehand, so nothing of it is merged
  into the result. When the cached dictionary has every requested name, the result is the
  join of cached descriptions, one for each requested name, and nothing is fetched or
  stored. A mapping stored under a key is read back as it was stored.
\<close>

theorem table_info_cache_all_or_nothing:
  assumes "names \<noteq> []"
  shows "((cache_get w (generate_cache_key E self (Some names)) = None
           \<or> (\<exists>ci n. cache_get w (generate_cache_key E self (Some names)) = Some ci \<and>
                  n \<in> set names \<and> \<not> contains ci n)) \<longrightarrow>
          get_table_info E self w (Some names) =
            (case fetch_table_info E self w (Some names) of
               (Inl e, w') \<Rightarrow> (''Error fetching table info: '' @ exc_str e, w')
             | (Inr tables_info, w') \<Rightarrow>
                 (join [nl, nl] (map snd tables_info),
                  update_cache w' (generate_cache_key E self (Some names)) tables_info))
          \<and> fst (get_table_info E self
                   (forget (generate_cache_key E self (Some names)) w) (Some names))
            = fst (get_table_info E self w (Some names)))
       \<and> (cache_get w (generate_cache_key E self (Some names)) = Some (PyDict d) \<and>
          list_all (contains (PyDict d)) names \<longrightarrow>
          (\<exists>sel. get_table_info E self w (Some names) = (join [nl, nl] (map snd sel), w) \<and>
                 distinct (map fst sel) \<and> set sel \<subseteq> set d \<and> fst ` set sel = set names))
       \<and> (cache w' \<noteq> None \<longrightarrow>
          cache_get (update_cache w' k tables_info) k = Some (PyDict tables_info))"
proof (intro conjI impI)
  let ?k = "generate_cache_key E self (Some names)"
  assume "cache_get w ?k = None \<or>
          (\<exists>ci n. cache_get w ?k = Some ci \<and> n \<in> set names \<and> \<not> contains ci n)"
  then show "fst (get_table_info E self (forget ?k w) (Some names))
             = fst (get_table_info E self w (Some names))"
    using assms by (rule stale_entry_ignored [rotated])
next
  let ?k = "generate_cache_key E self (Some names)"
  assume "cache_get w ?k = None \<or>
          (\<exists>ci n. cache_get w ?k = Some ci \<and> n \<in> set names \<and> \<not> contains ci n)"
  then have "get_info_from_cache w ?k (Some names) = Inr (Some (PyDict []))"
    using assms by (auto simp: get_info_from_cache_def Let_def missing_name_no_hit)
  then show "get_table_info E self w (Some names) =
            (case fetch_table_info E self w (Some names) of
               (Inl e, w') \<Rightarrow> (''Error fetching table info: '' @ exc_str e, w')
             | (Inr tables_info, w') \<Rightarrow>
                 (join [nl, nl] (map snd tables_info), update_cache w' ?k tables_info))"
    by (simp add: get_table_info_def Let_def split: prod.splits sum.splits)
next
  let ?k = "generate_cache_key E self (Some names)"
  assume a: "cache_get w ?k = Some (PyDict d) \<and> list_all (contains (PyDict d)) names"
  from a have "set names \<subseteq> fst ` set d" by (auto simp: list_all_iff)
  from cached_subset_dict [OF this, of "[]"] obtain sel where
    s: "cached_subset (PyDict d) names [] = Inr sel" "distinct (map fst sel)"
       "set sel \<subseteq> set d" "fst ` set sel = set names"
    by auto
  from s(4) assms have ne: "sel \<noteq> []" by auto
  from a assms have "d \<noteq> []" by (cases names) auto
  with a assms s(1) have "get_info_from_cache w ?k (Some names) = Inr (Some (PyDict sel))"
    by (simp add: get_info_from_cache_def Let_def filter_empty_conv list_all_iff)
  with ne have "get_table_info E self w (Some names) = (join [nl, nl] (map snd sel), w)"
    by (simp add: get_table_info_def Let_def)
  with s show "\<exists>sel. get_table_info E self w (Some names) = (join [nl, nl] (map snd sel), w) \<and>
                 distinct (map fst sel) \<and> set sel \<subseteq> set d \<and> fst ` set sel = set names"
    by blast
next
  assume "cache w' \<noteq> None"
  then show "cache_get (update_cache w' k tables_info) k = Some (PyDict tables_info)"
    by (auto simp: update_cache_def cache_set_def cache_get_def)
qed

lemma strip_orders0: "strip strip_chars ''orders'' = ''orders''"
  by (simp add: strip_def strip_chars_def bq_def dq_def sq_def nl_def cr_def)

lemma sample_of_orders:
  "get_sample_rows example_env shop_agent w ''shop.orders'' [''id'', ''note'']
   = (sample_placeholder, w\<lparr>executed := executed w @ [(sample_ast, ''shop'')]\<rparr>)"
  by (simp add: get_sample_rows_def sample_command_def call_engine_def example_env_def
      shop_agent_def init_def example_parse_def check_tables_def check_f_def
      example_execute_def sample_ast_def long_row_def answer_lists_def sample_cell_def
      py_str_def)

lemma fetch_orders:
  "fetch_table_info example_env shop_agent empty_cache (Some [''orders''])
   = (Inr [(''orders'', orders_info)],
      \<lparr> cache = Some Map.empty, executed = [(sample_ast, ''shop'')] \<rparr>)"
proof -
  have u: "get_usable_table_names example_env shop_agent empty_cache
           = (Inr (PyList [''shop.orders'']), empty_cache)"
    by (simp add: get_usable_table_names_def shop_agent_def init_def cache_get_def
        empty_cache_def Let_def)
  have r: "resolve_table_names example_env [''orders''] [[''shop'', ''orders'']]
           = Inr [[''shop'', ''orders'']]"
    by (simp add: resolve_table_names_def strip_orders0 example_env_def dotted_parts_def)
  have g: "get_single_table_info example_env shop_agent empty_cache [''shop'', ''orders'']
           = (Inr orders_info, \<lparr> cache = Some Map.empty, executed = [(sample_ast, ''shop'')] \<rparr>)"
    using sample_of_orders [of empty_cache]
    by (simp add: get_single_table_info_def Let_def orders_info_def empty_cache_def
        example_env_def dotted_str_def shop_agent_def init_def)
  show ?thesis
    using u r g by (simp add: fetch_table_info_def example_env_def dotted_parts_def)
qed


lemma distinct_singleton: "distinct xs \<Longrightarrow> set xs = {x} \<Longrightarrow> xs = [x]"
  by (cases xs) (auto simp: subset_singleton_iff dest: subset_singletonD)

theorem table_info_cache_witness:
  "get_table_info example_env shop_agent empty_cache (Some [''orders''])
     = (orders_info,
        \<lparr> cache = Some [generate_cache_key example_env shop_agent (Some [''orders''])
                          \<mapsto> PyDict [(''orders'', orders_info)]],
          executed = [(sample_ast, ''shop'')] \<rparr>)
   \<and> get_table_info example_env shop_agent
        \<lparr> cache = Some [generate_cache_key example_env shop_agent (Some [''orders''])
                          \<mapsto> PyDict [(''orders'', orders_info)]],
          executed = [(sample_ast, ''shop'')] \<rparr> (Some [''orders''])
     = (orders_info,
        \<lparr> cache = Some [generate_cache_key example_env shop_agent (Some [''orders''])
                          \<mapsto> PyDict [(''orders'', orders_info)]],
          executed = [(sample_ast, ''shop'')] \<rparr>)"
proof -
  let ?k = "generate_cache_key example_env shop_agent (Some [''orders''])"
  let ?w = "\<lparr> cache = Some [?k \<mapsto> PyDict [(''orders'', orders_info)]],
             executed = [(sample_ast, ''shop'')] \<rparr>"
  have ne: "[''orders''] \<noteq> []" by simp
  note t1 = table_info_cache_all_or_nothing [OF ne, of empty_cache example_env shop_agent]
  note t2 = table_info_cache_all_or_nothing [OF ne, of ?w example_env shop_agent
      "[(''orders'', orders_info)]"]
  have m: "cache_get empty_cache ?k = None" by (simp add: cache_get_def empty_cache_def)
  from t1 m have 1: "get_table_info example_env shop_agent empty_cache (Some [''orders'']) =
            (case fetch_table_info example_env shop_agent empty_cache (Some [''orders'']) of
               (Inl e, w') \<Rightarrow> (''Error fetching table info: '' @ exc_str e, w')
             | (Inr tables_info, w') \<Rightarrow>
                 (join [nl, nl] (map snd tables_info), update_cache w' ?k tables_info))"
    by blast
  have a: "get_table_info example_env shop_agent empty_cache (Some [''orders'']) = (orders_info, ?w)"
    by (simp add: 1 fetch_orders update_cache_def cache_set_def)
  have h: "cache_get ?w ?k = Some (PyDict [(''orders'', orders_info)])"
    "list_all (contains (PyDict [(''orders'', orders_info)])) [''orders'']"
    by (simp_all add: cache_get_def)
  with t2 obtain sel where
    s: "get_table_info example_env shop_agent ?w (Some [''orders''])
          = (join [nl, nl] (map snd sel), ?w)"
       "distinct (map fst sel)" "set sel \<subseteq> set [(''orders'', orders_info)]"
       "fst ` set sel = set [''orders'']"
    by blast
  from s(2,4) have "map fst sel = [''orders'']"
    by (intro distinct_singleton) simp_all
  then obtain v where "sel = [(''orders'', v)]" by (cases sel) auto
  with s(3) have "sel = [(''orders'', orders_info)]" by simp
  with s(1) have b: "get_table_info example_env shop_agent ?w (Some [''orders'']) = (orders_info, ?w)"
    by simp
  from a b show ?thesis by blast
qed

end
